theory Spec2Isabelle
  imports Main "HOL-Library.Signed_Division"
begin

section \<open>Go values shared by the packages\<close>

text \<open>
  Go's \<open>error\<close> values. \<open>fmt.Errorf(format, args...)\<close> is kept as the format string
  with its arguments, \<open>strconv\<close>'s \<open>*NumError\<close> as its three fields, and the
  errors of the API server by their reason (\<open>errors.IsNotFound\<close>,
  \<open>errors.IsConflict\<close> test exactly that reason).
\<close>

datatype error =
    ErrSyntax
  | ErrRange
  | NumError string string error
  | Errorf string "fmtarg list"
  | NotFound
  | Conflict
  | ApiError string
and fmtarg = ArgInt int | ArgErr error

definition IsNotFound :: "error \<Rightarrow> bool" where
  "IsNotFound err = (err = NotFound)"

definition IsConflict :: "error \<Rightarrow> bool" where
  "IsConflict err = (err = Conflict)"

text \<open>
  A Go slice may be \<open>nil\<close> or hold elements; \<open>len\<close> and \<open>range\<close> treat the
  \<open>nil\<close> slice as the empty one. A Go \<open>map[string]string\<close> is the list of its
  entries (looked up with \<open>map_of\<close>), again \<open>nil\<close> or present.
\<close>

type_synonym 'a slice = "'a list option"

definition elems :: "'a slice \<Rightarrow> 'a list" where
  "elems s = (case s of None \<Rightarrow> [] | Some xs \<Rightarrow> xs)"

definition len :: "'a slice \<Rightarrow> nat" where
  "len s = length (elems s)"

type_synonym gomap = "(string \<times> string) list option"

definition lookup :: "gomap \<Rightarrow> string \<Rightarrow> string option" where
  "lookup m k = (case m of None \<Rightarrow> None | Some kvs \<Rightarrow> map_of kvs k)"

text \<open>
  \<open>time.Duration\<close> is an \<open>int64\<close> count of nanoseconds; \<open>wrap64\<close> is the
  two's-complement wrap-around of \<open>int64\<close> arithmetic. A \<open>time.Time\<close> is an
  instant in nanoseconds; \<open>Time.Sub\<close> saturates at the ends of the \<open>Duration\<close>
  range.
\<close>

type_synonym Duration = int
type_synonym Time = int

definition wrap64 :: "int \<Rightarrow> int" where
  "wrap64 x = (x + 2 ^ 63) mod 2 ^ 64 - 2 ^ 63"

definition Millisecond :: Duration where
  "Millisecond = 1000000"

definition Second :: Duration where
  "Second = 1000000000"

definition maxDuration :: Duration where
  "maxDuration = 2 ^ 63 - 1"

definition minDuration :: Duration where
  "minDuration = - (2 ^ 63)"

definition Sub :: "Time \<Rightarrow> Time \<Rightarrow> Duration" where
  "Sub t u =
     (if t - u > maxDuration then maxDuration
      else if t - u < minDuration then minDuration
      else t - u)"

definition Since :: "Time \<Rightarrow> Time \<Rightarrow> Duration" where
  \<comment> \<open>\<open>time.Since(t)\<close> is \<open>time.Now().Sub(t)\<close>; the clock reading is the first argument.\<close>
  "Since now t = Sub now t"

subsection \<open>\<open>strconv.ParseInt(s, 10, 64)\<close>\<close>

definition isDigit :: "char \<Rightarrow> bool" where
  "isDigit c = (48 \<le> (of_char c :: nat) \<and> (of_char c :: nat) \<le> 57)"

definition digitVal :: "char \<Rightarrow> nat" where
  "digitVal c = of_char c - 48"

definition maxUint64 :: nat where
  "maxUint64 = 2 ^ 64 - 1"

text \<open>The digit loop of \<open>ParseUint\<close> in base 10: \<open>n\<close> is the value read so far.\<close>

fun ParseUint_loop :: "nat \<Rightarrow> string \<Rightarrow> error + nat" where
  "ParseUint_loop n [] = Inr n"
| "ParseUint_loop n (c # cs) =
     (if \<not> isDigit c then Inl ErrSyntax
      else if n \<ge> maxUint64 div 10 + 1 then Inl ErrRange
      else let n1 = n * 10 + digitVal c
           in if n1 > maxUint64 then Inl ErrRange else ParseUint_loop n1 cs)"

definition ParseUint :: "string \<Rightarrow> error + nat" where
  "ParseUint s = (if s = [] then Inl ErrSyntax else ParseUint_loop 0 s)"

definition ParseInt :: "string \<Rightarrow> error + int" where
  "ParseInt s0 =
     (if s0 = [] then Inl (NumError ''ParseInt'' s0 ErrSyntax)
      else
        let neg = (hd s0 = CHR ''-'');
            s = (if hd s0 = CHR ''+'' \<or> hd s0 = CHR ''-'' then tl s0 else s0)
        in case ParseUint s of
             Inl e \<Rightarrow> Inl (NumError ''ParseInt'' s0 e)
           | Inr un \<Rightarrow>
               if \<not> neg \<and> un \<ge> 2 ^ 63 then Inl (NumError ''ParseInt'' s0 ErrRange)
               else if neg \<and> un > 2 ^ 63 then Inl (NumError ''ParseInt'' s0 ErrRange)
               else Inr (if neg then - int un else int un))"

section \<open>Package controller: configuration (config.go)\<close>

record NamespaceSelector =
  Include :: "string slice"
  Exclude :: "string slice"

record Config =
  GracePeriodSeconds :: int
  DrainTimeoutSeconds :: int
  NamespaceSelector :: "NamespaceSelector option"

text \<open>The loop \<open>for _, x := range xs { if x == namespace { return ... } }\<close>.\<close>

fun rangeFinds :: "string list \<Rightarrow> string \<Rightarrow> bool" where
  "rangeFinds [] namespace = False"
| "rangeFinds (x # xs) namespace = (if x = namespace then True else rangeFinds xs namespace)"

definition Matches :: "NamespaceSelector option \<Rightarrow> string \<Rightarrow> bool" where
  "Matches ns namespace =
     (case ns of
        None \<Rightarrow> True
      | Some sel \<Rightarrow>
          if len (Exclude sel) > 0 \<and> rangeFinds (elems (Exclude sel)) namespace then False
          else if len (Include sel) > 0 then rangeFinds (elems (Include sel)) namespace
          else True)"

definition NewDefaultConfig :: Config where
  "NewDefaultConfig =
     \<lparr>GracePeriodSeconds = 30, DrainTimeoutSeconds = 300, NamespaceSelector = None\<rparr>"

text \<open>
  The metadata every API object embeds, and the ConfigMap. A \<open>*ConfigMap\<close> argument is a
  \<open>ConfigMap option\<close>, \<open>None\<close> being the \<open>nil\<close> pointer.
\<close>

record OwnerReference =
  Kind :: string
  OwnerName :: string

record ObjectMeta =
  Name :: string
  Namespace :: string
  Labels :: gomap
  Annotations :: gomap
  OwnerReferences :: "OwnerReference list"
  DeletionTimestamp :: "Time option"
  Finalizers :: "string list"

record ConfigMap = ObjectMeta +
  Data :: gomap

text \<open>
  \<open>json.Unmarshal\<close> into a \<open>NamespaceSelector\<close> belongs to Go's standard library; it is
  the parameter \<open>unmarshal\<close> of \<open>ParseConfig\<close>.
\<close>

type_synonym unmarshaller = "string \<Rightarrow> error + NamespaceSelector"

text \<open>
  \<open>ParseConfig\<close> handles its three keys one after the other; each of the three
  \<open>if ..., exists := configMap.Data[key]; exists\<close> blocks is one function here, taking
  the configuration built so far.
\<close>

definition parseGracePeriod :: "Config \<Rightarrow> gomap \<Rightarrow> error + Config" where
  "parseGracePeriod config data =
     (case lookup data ''gracePeriodSeconds'' of
        None \<Rightarrow> Inr config
      | Some gracePeriodStr \<Rightarrow>
          (case ParseInt gracePeriodStr of
             Inr gracePeriod \<Rightarrow>
               if gracePeriod < 0 then
                 Inl (Errorf ''gracePeriodSeconds must be non-negative, got: %d'' [ArgInt gracePeriod])
               else if gracePeriod > 3600 then
                 Inl (Errorf ''gracePeriodSeconds must be less than 3600 (1 hour), got: %d''
                        [ArgInt gracePeriod])
               else Inr (config\<lparr>GracePeriodSeconds := gracePeriod\<rparr>)
           | Inl err \<Rightarrow> Inl (Errorf ''invalid gracePeriodSeconds: %v'' [ArgErr err])))"

definition parseDrainTimeout :: "Config \<Rightarrow> gomap \<Rightarrow> error + Config" where
  "parseDrainTimeout config data =
     (case lookup data ''drainTimeoutSeconds'' of
        None \<Rightarrow> Inr config
      | Some drainTimeoutStr \<Rightarrow>
          (case ParseInt drainTimeoutStr of
             Inr drainTimeout \<Rightarrow>
               if drainTimeout \<le> 0 then
                 Inl (Errorf ''drainTimeoutSeconds must be positive, got: %d'' [ArgInt drainTimeout])
               else if drainTimeout > 7200 then
                 Inl (Errorf ''drainTimeoutSeconds must be less than 7200 (2 hours), got: %d''
                        [ArgInt drainTimeout])
               else if drainTimeout < GracePeriodSeconds config then
                 Inl (Errorf
                        ''drainTimeoutSeconds (%d) must be greater than gracePeriodSeconds (%d)''
                        [ArgInt drainTimeout, ArgInt (GracePeriodSeconds config)])
               else Inr (config\<lparr>DrainTimeoutSeconds := drainTimeout\<rparr>)
           | Inl err \<Rightarrow> Inl (Errorf ''invalid drainTimeoutSeconds: %v'' [ArgErr err])))"

definition parseNamespaceSelector :: "unmarshaller \<Rightarrow> Config \<Rightarrow> gomap \<Rightarrow> error + Config" where
  "parseNamespaceSelector unmarshal config data =
     (case lookup data ''namespaceSelector'' of
        None \<Rightarrow> Inr config
      | Some namespaceSelectorStr \<Rightarrow>
          (case unmarshal namespaceSelectorStr of
             Inl err \<Rightarrow> Inl (Errorf ''invalid namespaceSelector JSON: %v'' [ArgErr err])
           | Inr namespaceSelector \<Rightarrow>
               Inr (config\<lparr>NamespaceSelector := Some namespaceSelector\<rparr>)))"

definition ParseConfig :: "unmarshaller \<Rightarrow> ConfigMap option \<Rightarrow> error + Config" where
  "ParseConfig unmarshal configMap =
     (case configMap of
        None \<Rightarrow> Inl (Errorf ''configMap cannot be nil'' [])
      | Some cm \<Rightarrow>
          if Data cm = None then Inr NewDefaultConfig
          else
            (case parseGracePeriod NewDefaultConfig (Data cm) of
               Inl err \<Rightarrow> Inl err
             | Inr config1 \<Rightarrow>
                 (case parseDrainTimeout config1 (Data cm) of
                    Inl err \<Rightarrow> Inl err
                  | Inr config2 \<Rightarrow> parseNamespaceSelector unmarshal config2 (Data cm))))"

text \<open>The methods by which \<open>*Config\<close> implements the drain handler's \<open>Config\<close> interface.\<close>

definition Config_GetGracePeriod :: "Config \<Rightarrow> Duration" where
  "Config_GetGracePeriod c = wrap64 (wrap64 (GracePeriodSeconds c) * Second)"

definition Config_GetDrainTimeout :: "Config \<Rightarrow> Duration" where
  "Config_GetDrainTimeout c = wrap64 (wrap64 (DrainTimeoutSeconds c) * Second)"

section \<open>The Kubernetes objects the controller reads\<close>

text \<open>
  Only the fields the controller consumes are kept. \<open>PodPhase\<close>, \<open>PodConditionType\<close>,
  \<open>ConditionStatus\<close> and \<open>ResourceName\<close> are string types in the API, with the
  constants below.
\<close>

definition PodRunning :: string where "PodRunning = ''Running''"
definition PodSucceeded :: string where "PodSucceeded = ''Succeeded''"
definition PodFailed :: string where "PodFailed = ''Failed''"
definition PodReady :: string where "PodReady = ''Ready''"
definition ConditionTrue :: string where "ConditionTrue = ''True''"
definition ResourceCPU :: string where "ResourceCPU = ''cpu''"
definition ResourceMemory :: string where "ResourceMemory = ''memory''"

text \<open>
  A \<open>resource.Quantity\<close> is read by the controller only through its accessors
  \<open>MilliValue()\<close> and \<open>Value()\<close>, both of the API library; a quantity is the pair of
  what the two return (\<open>125m\<close> has \<open>MilliValue\<close> 125 and \<open>Value\<close> 1, \<open>128Mi\<close> has
  \<open>MilliValue\<close> 134217728000 and \<open>Value\<close> 134217728).
\<close>

record Quantity =
  MilliValue :: int
  Value :: int

type_synonym ResourceList = "(string \<times> Quantity) list option"

definition ResourceList_Name :: "ResourceList \<Rightarrow> string \<Rightarrow> Quantity" where
  \<comment> \<open>\<open>rl.Name(name, format)\<close>: the entry, or a fresh zero quantity; never \<open>nil\<close>.\<close>
  "ResourceList_Name rl name =
     (case (case rl of None \<Rightarrow> None | Some kvs \<Rightarrow> map_of kvs name) of
        Some val \<Rightarrow> val
      | None \<Rightarrow> \<lparr>MilliValue = 0, Value = 0\<rparr>)"

definition Cpu :: "ResourceList \<Rightarrow> Quantity" where
  "Cpu rl = ResourceList_Name rl ResourceCPU"

definition Memory :: "ResourceList \<Rightarrow> Quantity" where
  "Memory rl = ResourceList_Name rl ResourceMemory"

record ResourceRequirements =
  Limits :: ResourceList
  Requests :: ResourceList

record ContainerPort =
  ContainerPort :: int
  Protocol :: string

record Container =
  Ports :: "ContainerPort list"
  Resources :: ResourceRequirements

record PodCondition =
  Type :: string
  Status :: string

record PodSpec =
  Containers :: "Container list"

record PodStatus =
  Phase :: string
  Conditions :: "PodCondition list"
  PodIP :: string

record Pod = ObjectMeta +
  Spec :: PodSpec
  Status :: PodStatus

record Service = ObjectMeta +
  Selector :: gomap

record EndpointAddress =
  IP :: string

record EndpointSubset =
  Addresses :: "EndpointAddress list"

record Endpoints = ObjectMeta +
  Subsets :: "EndpointSubset list"

subsection \<open>The API server behind \<open>client.Client\<close>\<close>

text \<open>
  The cluster holds the objects by namespace and name. Every call of the client may be
  answered by an error of the server (\<open>Fault\<close>); otherwise \<open>Get\<close> answers
  \<open>NotFound\<close> for an object that is not there, \<open>List\<close> answers the services of the
  namespace, and \<open>Update\<close> replaces the stored pod.
\<close>

type_synonym ObjectKey = "string \<times> string"

datatype ApiCall =
    GetPod ObjectKey
  | GetConfigMap ObjectKey
  | GetEndpoints ObjectKey
  | ListServices string
  | UpdatePod ObjectKey

record Cluster =
  Pods :: "ObjectKey \<rightharpoonup> Pod"
  ConfigMaps :: "ObjectKey \<rightharpoonup> ConfigMap"
  Services :: "Service list"
  EndpointsObjects :: "ObjectKey \<rightharpoonup> Endpoints"
  Fault :: "ApiCall \<Rightarrow> error option"

definition Client_GetConfigMap :: "Cluster \<Rightarrow> ObjectKey \<Rightarrow> error + ConfigMap" where
  "Client_GetConfigMap c key =
     (case Fault c (GetConfigMap key) of
        Some err \<Rightarrow> Inl err
      | None \<Rightarrow> (case ConfigMaps c key of None \<Rightarrow> Inl NotFound | Some cm \<Rightarrow> Inr cm))"

definition Client_GetEndpoints :: "Cluster \<Rightarrow> ObjectKey \<Rightarrow> error + Endpoints" where
  "Client_GetEndpoints c key =
     (case Fault c (GetEndpoints key) of
        Some err \<Rightarrow> Inl err
      | None \<Rightarrow> (case EndpointsObjects c key of None \<Rightarrow> Inl NotFound | Some ep \<Rightarrow> Inr ep))"

definition Client_ListServices :: "Cluster \<Rightarrow> string \<Rightarrow> error + Service list" where
  "Client_ListServices c namespace =
     (case Fault c (ListServices namespace) of
        Some err \<Rightarrow> Inl err
      | None \<Rightarrow> Inr (filter (\<lambda>s. Namespace s = namespace) (Services c)))"

definition Client_Update :: "Cluster \<Rightarrow> Pod \<Rightarrow> Cluster \<times> error option" where
  "Client_Update c pod =
     (let key = (Namespace pod, Name pod)
      in case Fault c (UpdatePod key) of
           Some err \<Rightarrow> (c, Some err)
         | None \<Rightarrow>
             (case Pods c key of
                None \<Rightarrow> (c, Some NotFound)
              | Some _ \<Rightarrow> (c\<lparr>Pods := (Pods c)(key \<mapsto> pod)\<rparr>, None)))"

text \<open>
  \<open>labels.Set(selector).AsSelector().Matches(labels.Set(podLabels))\<close>: every entry of
  the selector is a label of the pod with the same value; the empty selector matches
  everything.
\<close>

definition SelectorMatches :: "gomap \<Rightarrow> gomap \<Rightarrow> bool" where
  "SelectorMatches selector podLabels =
     list_all (\<lambda>(k, v). lookup podLabels k = Some v)
       (case selector of None \<Rightarrow> [] | Some kvs \<Rightarrow> kvs)"

section \<open>Package finalizer: the drain handler (drain\_handler.go)\<close>

text \<open>The interface \<open>Config\<close> of the package, as the results of its two methods.\<close>

record DrainConfig =
  GetGracePeriod :: Duration
  GetDrainTimeout :: Duration

record DrainHandler =
  client :: Cluster
  config :: DrainConfig

definition NewDrainHandler :: "Cluster \<Rightarrow> DrainConfig \<Rightarrow> DrainHandler" where
  "NewDrainHandler cl cfg = \<lparr>client = cl, config = cfg\<rparr>"

fun isPodReady_loop :: "PodCondition list \<Rightarrow> bool" where
  "isPodReady_loop [] = False"
| "isPodReady_loop (condition # rest) =
     (if Type condition = PodReady then PodCondition.Status condition = ConditionTrue
      else isPodReady_loop rest)"

definition isPodReady :: "Pod \<Rightarrow> bool" where
  "isPodReady pod = isPodReady_loop (Conditions (Status pod))"

fun hasExposedPorts :: "Container list \<Rightarrow> bool" where
  "hasExposedPorts [] = False"
| "hasExposedPorts (container # rest) =
     (if length (Ports container) > 0 then True else hasExposedPorts rest)"

fun hasNotReadyCondition :: "PodCondition list \<Rightarrow> bool" where
  "hasNotReadyCondition [] = False"
| "hasNotReadyCondition (condition # rest) =
     (if Type condition = PodReady \<and> PodCondition.Status condition \<noteq> ConditionTrue then True
      else hasNotReadyCondition rest)"

fun addressesContain :: "EndpointAddress list \<Rightarrow> string \<Rightarrow> bool" where
  "addressesContain [] podIP = False"
| "addressesContain (address # rest) podIP =
     (if IP address = podIP then True else addressesContain rest podIP)"

fun subsetsContain :: "EndpointSubset list \<Rightarrow> string \<Rightarrow> bool" where
  "subsetsContain [] podIP = False"
| "subsetsContain (sub # rest) podIP =
     (if addressesContain (Addresses sub) podIP then True else subsetsContain rest podIP)"

text \<open>The loop of \<open>checkPodEndpoints\<close> over \<open>serviceList.Items\<close>.\<close>

fun checkPodEndpoints_loop :: "Cluster \<Rightarrow> Pod \<Rightarrow> string \<Rightarrow> Service list \<Rightarrow> bool \<times> error option" where
  "checkPodEndpoints_loop cl pod podIP [] = (False, None)"
| "checkPodEndpoints_loop cl pod podIP (service # rest) =
     (if Selector service = None then checkPodEndpoints_loop cl pod podIP rest
      else if SelectorMatches (Selector service) (Labels pod) then
        (case Client_GetEndpoints cl (Namespace service, Name service) of
           Inl err \<Rightarrow> checkPodEndpoints_loop cl pod podIP rest
         | Inr endpoints \<Rightarrow>
             if subsetsContain (Subsets endpoints) podIP then (True, None)
             else checkPodEndpoints_loop cl pod podIP rest)
      else checkPodEndpoints_loop cl pod podIP rest)"

definition checkPodEndpoints :: "DrainHandler \<Rightarrow> Pod \<Rightarrow> bool \<times> error option" where
  "checkPodEndpoints d pod =
     (case Client_ListServices (client d) (Namespace pod) of
        Inl err \<Rightarrow> (False, Some err)
      | Inr items \<Rightarrow>
          let podIP = PodIP (Status pod)
          in if podIP = [] then (False, None)
             else checkPodEndpoints_loop (client d) pod podIP items)"

definition checkActiveConnections :: "DrainHandler \<Rightarrow> Pod \<Rightarrow> bool \<times> error option" where
  "checkActiveConnections d pod =
     (if Phase (Status pod) \<noteq> PodRunning then (False, None)
      else if length (Containers (Spec pod)) = 0 then (False, None)
      else if \<not> hasExposedPorts (Containers (Spec pod)) then (False, None)
      else if hasNotReadyCondition (Conditions (Status pod)) then (False, None)
      else
        (case checkPodEndpoints d pod of
           (hasActiveEndpoints, Some err) \<Rightarrow> (True, Some err)
         | (hasActiveEndpoints, None) \<Rightarrow>
             if \<not> hasActiveEndpoints then (False, None) else (True, None)))"

definition HandleGracefulDrain :: "DrainHandler \<Rightarrow> Time \<Rightarrow> Pod \<Rightarrow> bool \<times> error option" where
  \<comment> \<open>\<open>now\<close> is the reading of the clock that \<open>time.Since\<close> takes.\<close>
  "HandleGracefulDrain d now pod =
     (case DeletionTimestamp pod of
        None \<Rightarrow> (True, None)
      | Some deletionTime \<Rightarrow>
          let gracePeriod = GetGracePeriod (config d);
              drainTimeout = GetDrainTimeout (config d);
              timeSinceDeletion = Since now deletionTime
          in if timeSinceDeletion < gracePeriod then (False, None)
             else if timeSinceDeletion > drainTimeout then (True, None)
             else if Phase (Status pod) = PodSucceeded \<or> Phase (Status pod) = PodFailed
               then (True, None)
             else if \<not> isPodReady pod then (True, None)
             else
               (case checkActiveConnections d pod of
                  (hasActiveConnections, Some err) \<Rightarrow> (False, Some err)
                | (hasActiveConnections, None) \<Rightarrow>
                    if \<not> hasActiveConnections then (True, None) else (False, None)))"

section \<open>Package controller: the reconciler (pod\_controller.go)\<close>

definition VPAGracefulDrainFinalizer :: string where
  "VPAGracefulDrainFinalizer = ''vpa-graceful-drain.cho.github.io/finalizer''"

record PodReconciler =
  Client :: Cluster
  ConfigMapName :: string
  ConfigMapNamespace :: string

text \<open>\<open>ctrl.Result\<close>; \<open>ctrl.Result{}\<close> asks for no requeue.\<close>

record Result =
  Requeue :: bool
  RequeueAfter :: Duration

definition Result_empty :: Result where
  "Result_empty = \<lparr>Requeue = False, RequeueAfter = 0\<rparr>"

text \<open>
  \<open>controllerutil.ContainsFinalizer\<close> ranges over the finalizers of the object and
  answers at the first equal one; \<open>controllerutil.RemoveFinalizer\<close> drops every
  occurrence.
\<close>

definition ContainsFinalizer :: "Pod \<Rightarrow> string \<Rightarrow> bool" where
  "ContainsFinalizer pod finalizer = rangeFinds (Finalizers pod) finalizer"

definition RemoveFinalizer :: "Pod \<Rightarrow> string \<Rightarrow> Pod" where
  "RemoveFinalizer pod finalizer =
     pod\<lparr>Finalizers := filter (\<lambda>f. f \<noteq> finalizer) (Finalizers pod)\<rparr>"

definition asDrainConfig :: "Config \<Rightarrow> DrainConfig" where
  \<comment> \<open>\<open>*Config\<close> passed where the handler expects its interface \<open>Config\<close>.\<close>
  "asDrainConfig cfg =
     \<lparr>GetGracePeriod = Config_GetGracePeriod cfg, GetDrainTimeout = Config_GetDrainTimeout cfg\<rparr>"

definition handlePodDeletion ::
  "PodReconciler \<Rightarrow> Time \<Rightarrow> Pod \<Rightarrow> Config \<Rightarrow> (Result \<times> error option) \<times> Cluster" where
  \<comment> \<open>The cluster after the call is returned beside the results.\<close>
  "handlePodDeletion r now pod cfg =
     (if \<not> ContainsFinalizer pod VPAGracefulDrainFinalizer then ((Result_empty, None), Client r)
      else
        let drainHandler = NewDrainHandler (Client r) (asDrainConfig cfg)
        in case HandleGracefulDrain drainHandler now pod of
             (completed, Some err) \<Rightarrow>
               ((\<lparr>Requeue = False, RequeueAfter = Second * 30\<rparr>, Some err), Client r)
           | (completed, None) \<Rightarrow>
               if \<not> completed then
                 ((\<lparr>Requeue = False, RequeueAfter = Second * 10\<rparr>, None), Client r)
               else
                 let podCopy = RemoveFinalizer pod VPAGracefulDrainFinalizer
                 in (case Client_Update (Client r) podCopy of
                       (cl, Some err) \<Rightarrow>
                         if IsConflict err then
                           ((\<lparr>Requeue = False, RequeueAfter = Millisecond * 100\<rparr>, None), cl)
                         else ((Result_empty, Some err), cl)
                     | (cl, None) \<Rightarrow> ((Result_empty, None), cl)))"

text \<open>
  The loop of \<open>isPodFromVPAManagedWorkload\<close> over the containers; Go's \<open>%\<close> is the
  remainder of the truncating division, \<open>smod\<close>.
\<close>

fun isPodFromVPAManagedWorkload_loop :: "Container list \<Rightarrow> bool" where
  "isPodFromVPAManagedWorkload_loop [] = False"
| "isPodFromVPAManagedWorkload_loop (container # rest) =
     (if Requests (Resources container) \<noteq> None \<or> Limits (Resources container) \<noteq> None then
        let cpuMillis = MilliValue (Cpu (Requests (Resources container)))
        in if cpuMillis > 0 \<and> cpuMillis smod 100 \<noteq> 0 \<and> cpuMillis smod 50 \<noteq> 0 then True
           else
             let memoryBytes = Value (Memory (Requests (Resources container)))
             in if memoryBytes > 0 \<and> memoryBytes smod (1024 * 1024) \<noteq> 0 then True
                else isPodFromVPAManagedWorkload_loop rest
      else isPodFromVPAManagedWorkload_loop rest)"

definition isPodFromVPAManagedWorkload :: "Pod \<Rightarrow> bool" where
  "isPodFromVPAManagedWorkload pod =
     (if length (OwnerReferences pod) = 0 then False
      else isPodFromVPAManagedWorkload_loop (Containers (Spec pod)))"

definition shouldManagePod :: "Pod \<Rightarrow> Config \<Rightarrow> bool" where
  "shouldManagePod pod cfg =
     (if NamespaceSelector cfg \<noteq> None \<and> \<not> Matches (NamespaceSelector cfg) (Namespace pod)
        then False
      else
        case (if Annotations pod \<noteq> None then lookup (Annotations pod) ''vpa-managed'' else None) of
          Some vpaManaged \<Rightarrow> vpaManaged = ''true''
        | None \<Rightarrow>
            if Annotations pod \<noteq> None
               \<and> lookup (Annotations pod) ''vpa-updater.client.k8s.io/last-updated'' \<noteq> None
              then True
            else if Annotations pod \<noteq> None
               \<and> (case lookup (Annotations pod) ''vpa.k8s.io/resource-name'' of
                     Some vpaName \<Rightarrow> vpaName \<noteq> []
                   | None \<Rightarrow> False)
              then True
            else if Labels pod \<noteq> None \<and> lookup (Labels pod) ''vpa.k8s.io/managed'' \<noteq> None
              then True
            else if isPodFromVPAManagedWorkload pod then True
            else False)"

definition shouldAddFinalizer :: "Pod \<Rightarrow> bool" where
  "shouldAddFinalizer pod = (\<not> ContainsFinalizer pod VPAGracefulDrainFinalizer)"

definition getConfig :: "unmarshaller \<Rightarrow> PodReconciler \<Rightarrow> error + Config" where
  "getConfig unmarshal r =
     (case Client_GetConfigMap (Client r) (ConfigMapNamespace r, ConfigMapName r) of
        Inl err \<Rightarrow> if IsNotFound err then Inr NewDefaultConfig else Inl err
      | Inr configMap \<Rightarrow> ParseConfig unmarshal (Some configMap))"

section \<open>Objects of the repository's tests\<close>

definition emptyCluster :: Cluster where
  "emptyCluster =
     \<lparr>Pods = Map.empty, ConfigMaps = Map.empty, Services = [],
      EndpointsObjects = Map.empty, Fault = (\<lambda>call. None)\<rparr>"

definition testReconciler :: PodReconciler where
  "testReconciler =
     \<lparr>Client = emptyCluster, ConfigMapName = ''test-config'',
      ConfigMapNamespace = ''test-namespace''\<rparr>"

definition testPod :: Pod where
  \<comment> \<open>The pod of the drain handler's integration scenarios, deleted at instant 0.\<close>
  "testPod =
     \<lparr>Name = ''test-pod'', Namespace = ''default'',
      Labels = Some [(''app'', ''test-app'')], Annotations = None,
      OwnerReferences = [], DeletionTimestamp = Some 0, Finalizers = [],
      Spec = \<lparr>Containers =
               [\<lparr>Ports = [\<lparr>ContainerPort = 80, Protocol = ''TCP''\<rparr>],
                 Resources = \<lparr>Limits = None, Requests = None\<rparr>\<rparr>]\<rparr>,
      Status = \<lparr>Phase = PodRunning,
                 Conditions = [\<lparr>Type = PodReady, Status = ConditionTrue\<rparr>],
                 PodIP = ''10.0.0.1''\<rparr>\<rparr>"

definition testService :: Service where
  "testService =
     \<lparr>Name = ''test-service'', Namespace = ''default'', Labels = None, Annotations = None,
      OwnerReferences = [], DeletionTimestamp = None, Finalizers = [],
      Selector = Some [(''app'', ''test-app'')]\<rparr>"

definition testConfigMap :: "(string \<times> string) list \<Rightarrow> ConfigMap" where
  "testConfigMap kvs =
     \<lparr>Name = ''test-config'', Namespace = ''test-namespace'', Labels = None,
      Annotations = None, OwnerReferences = [], DeletionTimestamp = None, Finalizers = [],
      Data = Some kvs\<rparr>"

definition limitsOnlyPod :: Pod where
  \<comment> \<open>Owned by a ReplicaSet; the one container has a CPU limit of \<open>125m\<close> and no requests.\<close>
  "limitsOnlyPod =
     \<lparr>Name = ''test-pod'', Namespace = ''default'', Labels = None, Annotations = None,
      OwnerReferences = [\<lparr>Kind = ''ReplicaSet'', OwnerName = ''test-rs''\<rparr>],
      DeletionTimestamp = None, Finalizers = [],
      Spec = \<lparr>Containers =
               [\<lparr>Ports = [],
                 Resources = \<lparr>Limits = Some [(ResourceCPU, \<lparr>MilliValue = 125, Value = 1\<rparr>)],
                              Requests = None\<rparr>\<rparr>]\<rparr>,
      Status = \<lparr>Phase = [], Conditions = [], PodIP = []\<rparr>\<rparr>"

definition optedOutPod :: Pod where
  \<comment> \<open>\<open>vpa-managed: "false"\<close> beside both legacy annotations and the VPA label.\<close>
  "optedOutPod =
     \<lparr>Name = ''test-pod'', Namespace = ''default'',
      Labels = Some [(''vpa.k8s.io/managed'', ''true'')],
      Annotations = Some [(''vpa-managed'', ''false''),
                          (''vpa-updater.client.k8s.io/last-updated'', ''2023-01-01T00:00:00Z''),
                          (''vpa.k8s.io/resource-name'', ''my-vpa'')],
      OwnerReferences = [], DeletionTimestamp = None, Finalizers = [],
      Spec = \<lparr>Containers = []\<rparr>,
      Status = \<lparr>Phase = [], Conditions = [], PodIP = []\<rparr>\<rparr>"

section \<open>Facts about the loops\<close>

lemma rangeFinds_iff: "rangeFinds xs x = (x \<in> set xs)"
  by (induction xs) auto

lemma checkPodEndpoints_loop_all_missing:
  assumes "\<forall>s \<in> set items.
             Selector s \<noteq> None \<and> SelectorMatches (Selector s) (Labels pod) \<longrightarrow>
             Client_GetEndpoints cl (Namespace s, Name s) = Inl NotFound"
  shows "checkPodEndpoints_loop cl pod podIP items = (False, None)"
  using assms by (induction items) auto

lemma parseDrainTimeout_ordered:
  "lookup data ''drainTimeoutSeconds'' \<noteq> None \<Longrightarrow> parseDrainTimeout c0 data = Inr c1 \<Longrightarrow>
     GracePeriodSeconds c1 \<le> DrainTimeoutSeconds c1"
  by (auto simp add: parseDrainTimeout_def split: option.splits sum.splits if_splits)

lemma parseNamespaceSelector_keeps:
  "parseNamespaceSelector unmarshal c0 data = Inr c1 \<Longrightarrow>
     GracePeriodSeconds c1 = GracePeriodSeconds c0 \<and>
     DrainTimeoutSeconds c1 = DrainTimeoutSeconds c0"
  by (auto simp add: parseNamespaceSelector_def split: option.splits sum.splits)

text \<open>
  What the loop of \<open>isPodFromVPAManagedWorkload\<close> computes: some container has a
  positive CPU request that is no multiple of 50 millicores, or a positive memory request
  that is no multiple of 1 MiB. The limits do not occur.
\<close>

lemma smod_100_50:
  "0 < (x::int) \<Longrightarrow> (x smod 100 \<noteq> 0 \<and> x smod 50 \<noteq> 0) = (x mod 50 \<noteq> 0)"
  by (simp add: signed_modulo_int_def) presburger

lemma isPodFromVPAManagedWorkload_loop_iff:
  "isPodFromVPAManagedWorkload_loop cs =
     (\<exists>c \<in> set cs.
        (0 < MilliValue (Cpu (Requests (Resources c)))
           \<and> MilliValue (Cpu (Requests (Resources c))) mod 50 \<noteq> 0)
        \<or> (0 < Value (Memory (Requests (Resources c)))
           \<and> Value (Memory (Requests (Resources c))) mod 1048576 \<noteq> 0))"
proof (induction cs)
  case Nil
  then show ?case by simp
next
  case (Cons c cs)
  have no_requests: "Requests (Resources c) = None \<Longrightarrow>
      MilliValue (Cpu (Requests (Resources c))) = 0
      \<and> Value (Memory (Requests (Resources c))) = 0"
    by (simp add: Cpu_def Memory_def ResourceList_Name_def)
  have memory: "0 < Value (Memory (Requests (Resources c))) \<Longrightarrow>
      Value (Memory (Requests (Resources c))) smod (1024 * 1024)
        = Value (Memory (Requests (Resources c))) mod 1048576"
    by (simp add: signed_modulo_int_def)
  show ?case
    using Cons.IH no_requests memory
      smod_100_50 [of "MilliValue (Cpu (Requests (Resources c)))"]
    by (auto simp add: Let_def)
qed

text \<open>
  What \<open>ParseConfig\<close> does guarantee: the order of the two values when the ConfigMap
  sets \<open>drainTimeoutSeconds\<close>.
\<close>

lemma ParseConfig_ordered_when_timeout_set:
  assumes "lookup (Data cm) ''drainTimeoutSeconds'' \<noteq> None"
    and "ParseConfig unmarshal (Some cm) = Inr cfg"
  shows "GracePeriodSeconds cfg \<le> DrainTimeoutSeconds cfg"
proof -
  from assms(1) have "Data cm \<noteq> None" by (auto simp add: lookup_def split: option.splits)
  with assms(2) obtain c1 c2 where
    "parseGracePeriod NewDefaultConfig (Data cm) = Inr c1"
    "parseDrainTimeout c1 (Data cm) = Inr c2"
    "parseNamespaceSelector unmarshal c2 (Data cm) = Inr cfg"
    by (auto simp add: ParseConfig_def split: sum.splits)
  with assms(1) show ?thesis
    using parseDrainTimeout_ordered parseNamespaceSelector_keeps by metis
qed

section \<open>The claims\<close>

subsection \<open>C1: the validator and the order of the two durations\<close>

text \<open>
  Claim C1 says that every configuration \<open>ParseConfig\<close> returns has a drain timeout of
  at least the grace period, and that a ConfigMap setting only \<open>gracePeriodSeconds\<close>
  above the default timeout of 300 is rejected. The comparison is made only inside the
  block of the key \<open>drainTimeoutSeconds\<close>: for the ConfigMap whose data is
  \<open>gracePeriodSeconds: "301"\<close> alone, \<open>ParseConfig\<close> returns, without error, the
  configuration with grace period 301 and drain timeout 300.
\<close>

theorem ParseConfig_grace_only_above_default_timeout:
  "ParseConfig (\<lambda>s. Inl ErrSyntax) (Some (testConfigMap [(''gracePeriodSeconds'', ''301'')]))
     = Inr \<lparr>GracePeriodSeconds = 301, DrainTimeoutSeconds = 300, NamespaceSelector = None\<rparr>
   \<and> Config_GetDrainTimeout
         \<lparr>GracePeriodSeconds = 301, DrainTimeoutSeconds = 300, NamespaceSelector = None\<rparr>
       < Config_GetGracePeriod
           \<lparr>GracePeriodSeconds = 301, DrainTimeoutSeconds = 300, NamespaceSelector = None\<rparr>"
  by (simp add: ParseConfig_def testConfigMap_def parseGracePeriod_def parseDrainTimeout_def
      parseNamespaceSelector_def lookup_def NewDefaultConfig_def ParseInt_def ParseUint_def
      isDigit_def digitVal_def maxUint64_def Config_GetDrainTimeout_def
      Config_GetGracePeriod_def wrap64_def Second_def)

subsection \<open>C2: the grace period is a floor\<close>

text \<open>
  Claim C2: for a pod whose deletion timestamp is set, whenever the time elapsed since
  that timestamp is less than the grace period, \<open>HandleGracefulDrain\<close> returns
  \<open>(false, nil)\<close>, whatever the phase, the conditions, the cluster and the drain
  timeout are.
\<close>

theorem HandleGracefulDrain_holds_within_grace:
  assumes "DeletionTimestamp pod = Some deletionTime"
    and "Since now deletionTime < GetGracePeriod (config d)"
  shows "HandleGracefulDrain d now pod = (False, None)"
  using assms by (simp add: HandleGracefulDrain_def)

theorem HandleGracefulDrain_holds_within_grace_witness:
  "DeletionTimestamp testPod = Some 0
   \<and> Since (10 * Second) 0
       < GetGracePeriod (config (NewDrainHandler emptyCluster (asDrainConfig NewDefaultConfig)))
   \<and> HandleGracefulDrain (NewDrainHandler emptyCluster (asDrainConfig NewDefaultConfig))
        (10 * Second) testPod = (False, None)"
proof -
  have deleted: "DeletionTimestamp testPod = Some 0"
    by (simp add: testPod_def)
  have early: "Since (10 * Second) 0
      < GetGracePeriod (config (NewDrainHandler emptyCluster (asDrainConfig NewDefaultConfig)))"
    by (simp add: Since_def Sub_def Second_def maxDuration_def minDuration_def
        NewDrainHandler_def asDrainConfig_def Config_GetGracePeriod_def NewDefaultConfig_def
        wrap64_def)
  from HandleGracefulDrain_holds_within_grace [OF deleted early] deleted early
  show ?thesis by simp
qed

subsection \<open>C3: the drain timeout is a ceiling above the grace period\<close>

text \<open>
  Claim C3 says that an elapsed time above the drain timeout always releases, for every
  configuration. The grace-period test comes first in \<open>HandleGracefulDrain\<close>, so a
  handler whose grace period (3600 s) exceeds its drain timeout (300 s) holds a pod
  deleted 400 s ago.
\<close>

theorem HandleGracefulDrain_timeout_below_grace_counterexample:
  "DeletionTimestamp testPod = Some 0
   \<and> GetDrainTimeout (config (NewDrainHandler emptyCluster
         \<lparr>GetGracePeriod = 3600 * Second, GetDrainTimeout = 300 * Second\<rparr>))
       < Since (400 * Second) 0
   \<and> HandleGracefulDrain
         (NewDrainHandler emptyCluster
            \<lparr>GetGracePeriod = 3600 * Second, GetDrainTimeout = 300 * Second\<rparr>)
         (400 * Second) testPod = (False, None)"
  by (simp add: HandleGracefulDrain_def testPod_def Since_def Sub_def Second_def
      maxDuration_def minDuration_def NewDrainHandler_def)

text \<open>
  Claim C3, amended: for a pod whose deletion timestamp is set, whenever the elapsed time
  is greater than the drain timeout and not less than the grace period (as it is for
  every configuration whose drain timeout is at least its grace period),
  \<open>HandleGracefulDrain\<close> returns \<open>(true, nil)\<close>, whatever the phase, the conditions
  and the cluster are.
\<close>

theorem HandleGracefulDrain_releases_after_timeout:
  assumes "DeletionTimestamp pod = Some deletionTime"
    and "\<not> Since now deletionTime < GetGracePeriod (config d)"
    and "GetDrainTimeout (config d) < Since now deletionTime"
  shows "HandleGracefulDrain d now pod = (True, None)"
  using assms by (simp add: HandleGracefulDrain_def)

theorem HandleGracefulDrain_releases_after_timeout_witness:
  "DeletionTimestamp testPod = Some 0
   \<and> \<not> Since (400 * Second) 0
         < GetGracePeriod (config (NewDrainHandler emptyCluster (asDrainConfig NewDefaultConfig)))
   \<and> GetDrainTimeout (config (NewDrainHandler emptyCluster (asDrainConfig NewDefaultConfig)))
       < Since (400 * Second) 0
   \<and> HandleGracefulDrain (NewDrainHandler emptyCluster (asDrainConfig NewDefaultConfig))
        (400 * Second) testPod = (True, None)"
proof -
  have deleted: "DeletionTimestamp testPod = Some 0"
    by (simp add: testPod_def)
  have past_grace: "\<not> Since (400 * Second) 0
      < GetGracePeriod (config (NewDrainHandler emptyCluster (asDrainConfig NewDefaultConfig)))"
    by (simp add: Since_def Sub_def Second_def maxDuration_def minDuration_def
        NewDrainHandler_def asDrainConfig_def Config_GetGracePeriod_def NewDefaultConfig_def
        wrap64_def)
  have past_timeout:
    "GetDrainTimeout (config (NewDrainHandler emptyCluster (asDrainConfig NewDefaultConfig)))
      < Since (400 * Second) 0"
    by (simp add: Since_def Sub_def Second_def maxDuration_def minDuration_def
        NewDrainHandler_def asDrainConfig_def Config_GetDrainTimeout_def NewDefaultConfig_def
        wrap64_def)
  from HandleGracefulDrain_releases_after_timeout [OF deleted past_grace past_timeout]
    deleted past_grace past_timeout
  show ?thesis by simp
qed

subsection \<open>C4 and C5: the namespace selector\<close>

text \<open>
  Claim C4 says that with a nonempty include list \<open>Matches\<close> is membership in that
  list, so that a namespace in both lists matches. \<open>Matches\<close> ranges over the exclude
  list first: for the selector of the test "should prioritize include over exclude"
  (include \<open>default\<close>, \<open>production\<close>, \<open>kube-system\<close>; exclude \<open>kube-system\<close>,
  \<open>kube-public\<close>) it answers \<open>false\<close> on \<open>kube-system\<close>, where the test expects
  \<open>true\<close>.
\<close>

theorem Matches_excluded_namespace_in_include:
  "Matches
     (Some \<lparr>Include = Some [''default'', ''production'', ''kube-system''],
            Exclude = Some [''kube-system'', ''kube-public'']\<rparr>)
     ''kube-system'' = False"
  by (simp add: Matches_def len_def elems_def)

text \<open>
  Claim C5 says that a selector whose include list is present but empty matches no
  namespace. \<open>Matches\<close> reads the include list only through \<open>len\<close>, which is 0 for
  the empty list as for the \<open>nil\<close> one: for the selector of the test "should handle
  empty include array" (\<open>{"include": []}\<close>) it answers \<open>true\<close> on \<open>default\<close>, where
  the test expects \<open>false\<close>.
\<close>

theorem Matches_empty_include_list:
  "Matches (Some \<lparr>Include = Some [], Exclude = None\<rparr>) ''default'' = True"
  by (simp add: Matches_def len_def elems_def)

text \<open>What \<open>Matches\<close> computes, for every selector.\<close>

lemma Matches_Some_iff:
  "Matches (Some sel) namespace =
     (namespace \<notin> set (elems (Exclude sel))
      \<and> (elems (Include sel) = [] \<or> namespace \<in> set (elems (Include sel))))"
  by (auto simp add: Matches_def len_def rangeFinds_iff)

subsection \<open>C6: the explicit annotation decides\<close>

text \<open>
  Claim C6: for a pod whose annotations hold the key \<open>vpa-managed\<close> and a
  configuration whose namespace selector matches the pod's namespace,
  \<open>shouldManagePod\<close> is true exactly when the value is \<open>"true"\<close>, whatever the other
  annotations, the labels and the resources of the pod are.
\<close>

theorem shouldManagePod_explicit_annotation:
  assumes "lookup (Annotations pod) ''vpa-managed'' = Some vpaManaged"
    and "Matches (NamespaceSelector cfg) (Namespace pod)"
  shows "shouldManagePod pod cfg = (vpaManaged = ''true'')"
proof -
  from assms(1) have "Annotations pod \<noteq> None"
    by (auto simp add: lookup_def split: option.splits)
  with assms show ?thesis
    by (simp add: shouldManagePod_def)
qed

theorem shouldManagePod_explicit_annotation_witness:
  "lookup (Annotations optedOutPod) ''vpa-managed'' = Some ''false''
   \<and> lookup (Annotations optedOutPod) ''vpa-updater.client.k8s.io/last-updated'' \<noteq> None
   \<and> lookup (Annotations optedOutPod) ''vpa.k8s.io/resource-name'' = Some ''my-vpa''
   \<and> lookup (Labels optedOutPod) ''vpa.k8s.io/managed'' \<noteq> None
   \<and> Matches (NamespaceSelector NewDefaultConfig) (Namespace optedOutPod)
   \<and> shouldManagePod optedOutPod NewDefaultConfig = False"
proof -
  have explicit: "lookup (Annotations optedOutPod) ''vpa-managed'' = Some ''false''"
    by (simp add: optedOutPod_def lookup_def)
  have in_scope: "Matches (NamespaceSelector NewDefaultConfig) (Namespace optedOutPod)"
    by (simp add: NewDefaultConfig_def Matches_def)
  have legacy:
    "lookup (Annotations optedOutPod) ''vpa-updater.client.k8s.io/last-updated'' \<noteq> None
     \<and> lookup (Annotations optedOutPod) ''vpa.k8s.io/resource-name'' = Some ''my-vpa''
     \<and> lookup (Labels optedOutPod) ''vpa.k8s.io/managed'' \<noteq> None"
    by (simp add: optedOutPod_def lookup_def)
  from shouldManagePod_explicit_annotation [OF explicit in_scope] explicit in_scope legacy
  show ?thesis by simp
qed

subsection \<open>C7: the resource heuristic reads requests only\<close>

text \<open>
  Claim C7 says that the heuristic fallback classifies a pod as managed when a container
  has a non-round CPU or memory request or limit, so that a pod whose only non-round
  value is a limit is managed. \<open>isPodFromVPAManagedWorkload\<close> mentions the limits only
  in the guard of the block and then reads \<open>Requests.Cpu()\<close> and
  \<open>Requests.Memory()\<close>: the pod owned by a ReplicaSet whose one container has the CPU
  limit \<open>125m\<close> and no requests is not managed.
\<close>

theorem isPodFromVPAManagedWorkload_limit_only:
  "isPodFromVPAManagedWorkload limitsOnlyPod = False
   \<and> shouldManagePod limitsOnlyPod NewDefaultConfig = False"
  by (simp add: isPodFromVPAManagedWorkload_def shouldManagePod_def limitsOnlyPod_def
      NewDefaultConfig_def lookup_def Cpu_def Memory_def ResourceList_Name_def)

text \<open>The same quantity as a request makes the same pod managed.\<close>

lemma isPodFromVPAManagedWorkload_request:
  "isPodFromVPAManagedWorkload
     (limitsOnlyPod\<lparr>Spec :=
        \<lparr>Containers =
           [\<lparr>Ports = [],
             Resources = \<lparr>Limits = None,
                          Requests = Some [(ResourceCPU, \<lparr>MilliValue = 125, Value = 1\<rparr>)]\<rparr>\<rparr>]\<rparr>\<rparr>)
   = True"
  by (simp add: isPodFromVPAManagedWorkload_def limitsOnlyPod_def Cpu_def Memory_def
      ResourceList_Name_def ResourceCPU_def ResourceMemory_def signed_modulo_int_def)

subsection \<open>C8: which failures of the traffic probe are propagated\<close>

text \<open>
  Claim C8 says that a failed read of the endpoints of a matching service makes
  \<open>checkActiveConnections\<close> return \<open>(true, error)\<close>. In \<open>checkPodEndpoints\<close> an
  error of that read is answered by \<open>continue\<close>: for the Running, Ready pod of the
  tests, with an exposed port, and the one matching service whose endpoints do not exist,
  the read fails and the result is \<open>(false, nil)\<close>.
\<close>

theorem checkActiveConnections_missing_endpoints_counterexample:
  "Phase (Status testPod) = PodRunning
   \<and> isPodReady testPod
   \<and> hasExposedPorts (Containers (Spec testPod))
   \<and> SelectorMatches (Selector testService) (Labels testPod)
   \<and> Client_GetEndpoints (emptyCluster\<lparr>Services := [testService]\<rparr>)
        (Namespace testService, Name testService) = Inl NotFound
   \<and> checkActiveConnections
        (NewDrainHandler (emptyCluster\<lparr>Services := [testService]\<rparr>)
           (asDrainConfig NewDefaultConfig))
        testPod = (False, None)"
  by (simp add: checkActiveConnections_def checkPodEndpoints_def isPodReady_def testPod_def
      testService_def emptyCluster_def NewDrainHandler_def Client_ListServices_def
      Client_GetEndpoints_def SelectorMatches_def lookup_def PodRunning_def PodReady_def
      ConditionTrue_def)

text \<open>
  Claim C8, amended: for every Running pod with an exposed container port and no Ready
  condition other than True, when the listing of the services of the pod's namespace
  fails, \<open>checkActiveConnections\<close> returns \<open>(true, error)\<close> with the error of the
  listing; when the listing succeeds and the read of the endpoints of every service whose
  selector matches the pod answers not-found, it returns \<open>(false, nil)\<close>: a missing
  endpoint-address set is skipped, not propagated.
\<close>

theorem checkActiveConnections_probe_failures:
  assumes "Phase (Status pod) = PodRunning"
    and "hasExposedPorts (Containers (Spec pod))"
    and "\<not> hasNotReadyCondition (Conditions (Status pod))"
  shows "case Client_ListServices (client d) (Namespace pod) of
           Inl err \<Rightarrow> checkActiveConnections d pod = (True, Some err)
         | Inr items \<Rightarrow>
             (\<forall>s \<in> set items.
                Selector s \<noteq> None \<and> SelectorMatches (Selector s) (Labels pod) \<longrightarrow>
                Client_GetEndpoints (client d) (Namespace s, Name s) = Inl NotFound)
             \<longrightarrow> checkActiveConnections d pod = (False, None)"
proof (cases "Client_ListServices (client d) (Namespace pod)")
  case (Inl err)
  from assms(2) have "Containers (Spec pod) \<noteq> []" by auto
  with assms Inl show ?thesis
    by (simp add: checkActiveConnections_def checkPodEndpoints_def)
next
  case (Inr items)
  from assms(2) have containers: "Containers (Spec pod) \<noteq> []" by auto
  have "checkActiveConnections d pod = (False, None)"
    if missing: "\<forall>s \<in> set items.
         Selector s \<noteq> None \<and> SelectorMatches (Selector s) (Labels pod) \<longrightarrow>
         Client_GetEndpoints (client d) (Namespace s, Name s) = Inl NotFound"
  proof -
    have "checkPodEndpoints d pod = (False, None)"
      using Inr checkPodEndpoints_loop_all_missing [OF missing]
      by (simp add: checkPodEndpoints_def Let_def)
    with assms containers show ?thesis
      by (simp add: checkActiveConnections_def)
  qed
  with Inr show ?thesis by simp
qed

theorem checkActiveConnections_probe_failures_witness:
  "checkActiveConnections
     (NewDrainHandler
        (emptyCluster\<lparr>Fault := (\<lambda>call. if call = ListServices ''default''
                                     then Some (ApiError ''timeout'') else None)\<rparr>)
        (asDrainConfig NewDefaultConfig))
     testPod = (True, Some (ApiError ''timeout''))
   \<and> checkActiveConnections
        (NewDrainHandler (emptyCluster\<lparr>Services := [testService]\<rparr>)
           (asDrainConfig NewDefaultConfig))
        testPod = (False, None)"
proof -
  have running: "Phase (Status testPod) = PodRunning"
    by (simp add: testPod_def)
  have ports: "hasExposedPorts (Containers (Spec testPod))"
    by (simp add: testPod_def)
  have ready: "\<not> hasNotReadyCondition (Conditions (Status testPod))"
    by (simp add: testPod_def)
  have failing:
    "checkActiveConnections
       (NewDrainHandler
          (emptyCluster\<lparr>Fault := (\<lambda>call. if call = ListServices ''default''
                                       then Some (ApiError ''timeout'') else None)\<rparr>)
          (asDrainConfig NewDefaultConfig))
       testPod = (True, Some (ApiError ''timeout''))"
    using checkActiveConnections_probe_failures [OF running ports ready,
        of "NewDrainHandler
          (emptyCluster\<lparr>Fault := (\<lambda>call. if call = ListServices ''default''
                                       then Some (ApiError ''timeout'') else None)\<rparr>)
          (asDrainConfig NewDefaultConfig)"]
    by (simp add: NewDrainHandler_def Client_ListServices_def emptyCluster_def testPod_def)
  have missing:
    "checkActiveConnections
       (NewDrainHandler (emptyCluster\<lparr>Services := [testService]\<rparr>)
          (asDrainConfig NewDefaultConfig))
       testPod = (False, None)"
    using checkActiveConnections_probe_failures [OF running ports ready,
        of "NewDrainHandler (emptyCluster\<lparr>Services := [testService]\<rparr>)
          (asDrainConfig NewDefaultConfig)"]
    by (simp add: NewDrainHandler_def Client_ListServices_def Client_GetEndpoints_def
        emptyCluster_def testPod_def testService_def)
  from failing missing show ?thesis by simp
qed

subsection \<open>C9: a pod without the guard marker is left alone\<close>

text \<open>
  Claim C9: for a pod whose finalizers do not contain
  \<open>vpa-graceful-drain.cho.github.io/finalizer\<close> (with its deletion timestamp set or
  not), \<open>handlePodDeletion\<close> returns \<open>ctrl.Result{}\<close> and no error and leaves the
  cluster as it was, for every clock reading, configuration and cluster: no update is
  sent and the outcome does not depend on anything the drain decision reads.
\<close>

theorem handlePodDeletion_without_finalizer:
  assumes "VPAGracefulDrainFinalizer \<notin> set (Finalizers pod)"
  shows "handlePodDeletion r now pod cfg
           = ((\<lparr>Requeue = False, RequeueAfter = 0\<rparr>, None), Client r)"
  using assms
  by (simp add: handlePodDeletion_def ContainsFinalizer_def rangeFinds_iff Result_empty_def)

theorem handlePodDeletion_without_finalizer_witness:
  "DeletionTimestamp testPod = Some 0
   \<and> VPAGracefulDrainFinalizer \<notin> set (Finalizers testPod)
   \<and> handlePodDeletion (testReconciler\<lparr>Client := emptyCluster\<lparr>Pods := [(''default'', ''test-pod'') \<mapsto> testPod]\<rparr>\<rparr>)
        (400 * Second) testPod NewDefaultConfig
       = ((\<lparr>Requeue = False, RequeueAfter = 0\<rparr>, None),
          emptyCluster\<lparr>Pods := [(''default'', ''test-pod'') \<mapsto> testPod]\<rparr>)"
proof -
  have unguarded: "VPAGracefulDrainFinalizer \<notin> set (Finalizers testPod)"
    by (simp add: testPod_def)
  have deleted: "DeletionTimestamp testPod = Some 0"
    by (simp add: testPod_def)
  from handlePodDeletion_without_finalizer [OF unguarded,
      of "testReconciler\<lparr>Client := emptyCluster\<lparr>Pods := [(''default'', ''test-pod'') \<mapsto> testPod]\<rparr>\<rparr>"
         "400 * Second" NewDefaultConfig]
    unguarded deleted
  show ?thesis by simp
qed

subsection \<open>C10: the nil ConfigMap and the absent ConfigMap\<close>

text \<open>
  Claim C10: \<open>ParseConfig\<close> applied to the \<open>nil\<close> pointer returns the error
  "configMap cannot be nil", not the default configuration; \<open>getConfig\<close> answers a
  not-found read of the ConfigMap with \<open>NewDefaultConfig\<close> and no error.
\<close>

theorem ParseConfig_nil_getConfig_not_found:
  "ParseConfig unmarshal None = Inl (Errorf ''configMap cannot be nil'' [])
   \<and> (Client_GetConfigMap (Client r) (ConfigMapNamespace r, ConfigMapName r) = Inl NotFound
        \<longrightarrow> getConfig unmarshal r = Inr NewDefaultConfig)"
  by (simp add: ParseConfig_def getConfig_def IsNotFound_def)

theorem ParseConfig_nil_getConfig_not_found_witness:
  "ParseConfig (\<lambda>s. Inl ErrSyntax) None = Inl (Errorf ''configMap cannot be nil'' [])
   \<and> Client_GetConfigMap (Client testReconciler)
        (ConfigMapNamespace testReconciler, ConfigMapName testReconciler) = Inl NotFound
   \<and> getConfig (\<lambda>s. Inl ErrSyntax) testReconciler = Inr NewDefaultConfig"
proof -
  have absent: "Client_GetConfigMap (Client testReconciler)
      (ConfigMapNamespace testReconciler, ConfigMapName testReconciler) = Inl NotFound"
    by (simp add: Client_GetConfigMap_def testReconciler_def emptyCluster_def)
  from ParseConfig_nil_getConfig_not_found [of "\<lambda>s. Inl ErrSyntax" testReconciler] absent
  show ?thesis by simp
qed

end
